theory Spec2Isabelle
  imports Complex_Main
begin

section \<open>The network description of ch6-learn.ipynb\<close>

text \<open>
  The notebook's second code cell builds one network by a sequence of constructor calls
  inside \<^verbatim>\<open>with model:\<close>. Each call creates an object and registers it with the
  enclosing network. The objects are modelled as records holding the arguments the
  notebook passes; an argument the notebook leaves out is \<open>None\<close> (the simulator's
  default applies and is not part of this repository). Python floats are read as the
  real numbers their literals denote. Object identity is the position of the object in
  the network's list of its kind, in creation order.
\<close>

subsection \<open>Objects\<close>

datatype neuron_type = Direct

record ensemble =
  n_neurons :: nat
  dimensions :: nat
  neuron_type :: "neuron_type option"

text \<open>\<^verbatim>\<open>WhiteSignal(period, high=...)\<close>: the two arguments the notebook gives.\<close>

datatype process = WhiteSignal real real

datatype node_output = Callable "real \<Rightarrow> real" | Process process

record node =
  output_n :: node_output

text \<open>
  What a connection can start from or end at: an ensemble (its decoded value), the
  neurons of an ensemble (\<^verbatim>\<open>ens.neurons\<close>), a node, or one learning rule of a
  connection (\<^verbatim>\<open>conn.learning_rule[key]\<close>).
\<close>

datatype obj = Ens nat | Neurons nat | NodeRef nat | LearningRule nat string

text \<open>The argument of \<open>PES\<close> and \<open>BCM\<close> is the \<^verbatim>\<open>learning_rate\<close> keyword, when given.\<close>

datatype learning_rule_type = PES "real option" | BCM "real option"

text \<open>\<^verbatim>\<open>nengo.solvers.LstsqL2(weights=...)\<close>.\<close>

datatype solver = LstsqL2 bool

text \<open>
  \<^verbatim>\<open>lambda x: np.random.random(k)\<close>: the only function the notebook attaches to a
  connection. It does not use \<open>x\<close>; it returns an array of \<open>k\<close> numbers taken from
  NumPy's global generator.
\<close>

datatype conn_fn = Np_random_random nat

datatype transform = Scalar real | Matrix "real list list"

record connection =
  pre_obj :: obj
  post_obj :: obj
  conn_function :: "conn_fn option"
  transform :: "transform option"
  synapse :: "real option"
  solver :: "solver option"
  learning_rule_type :: "(string \<times> learning_rule_type) list"

record network =
  label :: string
  seed :: "nat option"
  ensembles :: "ensemble list"
  nodes :: "node list"
  connections :: "connection list"

datatype py_error = KeyError

subsection \<open>Constructors\<close>

definition Network :: "string \<Rightarrow> nat option \<Rightarrow> network" where
  "Network l s = \<lparr>label = l, seed = s, ensembles = [], nodes = [], connections = []\<rparr>"

definition Ensemble :: "nat \<Rightarrow> nat \<Rightarrow> neuron_type option \<Rightarrow> network \<Rightarrow> nat \<times> network" where
  "Ensemble n d nt net =
     (length (ensembles net),
      net\<lparr>ensembles := ensembles net @ [\<lparr>n_neurons = n, dimensions = d, neuron_type = nt\<rparr>]\<rparr>)"

definition Node :: "node_output \<Rightarrow> network \<Rightarrow> nat \<times> network" where
  "Node out net = (length (nodes net), net\<lparr>nodes := nodes net @ [\<lparr>output_n = out\<rparr>]\<rparr>)"

definition Connection ::
  "obj \<Rightarrow> obj \<Rightarrow> conn_fn option \<Rightarrow> transform option \<Rightarrow> real option \<Rightarrow> solver option \<Rightarrow>
   network \<Rightarrow> nat \<times> network" where
  "Connection a b f tr syn sol net =
     (length (connections net),
      net\<lparr>connections := connections net @
        [\<lparr>pre_obj = a, post_obj = b, conn_function = f, transform = tr, synapse = syn,
          solver = sol, learning_rule_type = []\<rparr>]\<rparr>)"

text \<open>\<^verbatim>\<open>conn.learning_rule_type = {...}\<close>: an attribute assignment on an existing connection.\<close>

definition set_learning_rule_type ::
  "nat \<Rightarrow> (string \<times> learning_rule_type) list \<Rightarrow> network \<Rightarrow> network" where
  "set_learning_rule_type c rules net =
     net\<lparr>connections := (connections net)[c := (connections net ! c)\<lparr>learning_rule_type := rules\<rparr>]\<rparr>"

text \<open>\<^verbatim>\<open>conn.learning_rule[key]\<close>: a dictionary lookup, which raises on a missing key.\<close>

definition learning_rule :: "nat \<Rightarrow> string \<Rightarrow> network \<Rightarrow> py_error + obj" where
  "learning_rule c k net =
     (case map_of (learning_rule_type (connections net ! c)) k of
        None \<Rightarrow> Inl KeyError
      | Some _ \<Rightarrow> Inr (LearningRule c k))"

subsection \<open>The notebook's cell\<close>

definition inhib :: "real \<Rightarrow> real" where
  "inhib t = (if t > 15.0 then 2.0 else 0.0)"

text \<open>The Python variables the cell binds.\<close>

record handles =
  pre :: nat
  post :: nat
  error :: nat
  actual_error :: nat
  conn :: nat
  error_conn :: nat
  input :: nat
  inhibit :: nat

definition cell :: "py_error + (handles \<times> network)" where
  "cell =
    (let model = Network ''Learning'' (Some 7);
         (pre, model) = Ensemble 50 1 None model;
         (post, model) = Ensemble 50 1 None model;
         (error, model) = Ensemble 100 1 None model;
         (actual_error, model) = Ensemble 100 1 (Some Direct) model;
         (_, model) = Connection (Ens pre) (Ens actual_error) None (Some (Scalar (- 1))) None None model;
         (_, model) = Connection (Ens post) (Ens actual_error) None (Some (Scalar 1)) None None model;
         (_, model) = Connection (Ens pre) (Ens error) None (Some (Scalar (- 1))) (Some 0.02) None model;
         (_, model) = Connection (Ens post) (Ens error) None (Some (Scalar 1)) (Some 0.02) None model;
         (conn, model) = Connection (Ens pre) (Ens post) (Some (Np_random_random 1)) None None
                           (Some (LstsqL2 True)) model;
         model = set_learning_rule_type conn
                   [(''my_pes'', PES None), (''my_bcm'', BCM (Some (1 / 10 ^ 10)))] model
     in case learning_rule conn ''my_pes'' model of
          Inl e \<Rightarrow> Inl e
        | Inr my_pes \<Rightarrow>
           (let (error_conn, model) = Connection (Ens error) my_pes None None None None model;
                (input, model) = Node (Process (WhiteSignal 30 10)) model;
                (_, model) = Connection (NodeRef input) (Ens pre) None None (Some 0.02) None model;
                (inhibit, model) = Node (Callable inhib) model;
                (_, model) = Connection (NodeRef inhibit) (Neurons error) None
                               (Some (Matrix (replicate (n_neurons (ensembles model ! error)) [- 1])))
                               (Some 0.01) None model
            in Inr (\<lparr>pre = pre, post = post, error = error, actual_error = actual_error,
                      conn = conn, error_conn = error_conn, input = input, inhibit = inhibit\<rparr>,
                    model)))"

definition vars :: handles where
  "vars = fst (projr cell)"

definition model :: network where
  "model = snd (projr cell)"


subsection \<open>Dimensions and signals\<close>

text \<open>
  The part of the simulator's meaning of a network description that the properties below
  rest on, with synaptic filtering, neural noise and learning left out: every object
  carries a vector, a connection multiplies the vector of its source by its transform
  (no transform leaves it unchanged, a scalar scales it, a matrix maps it), and an object
  receives the sum of what its incoming connections deliver.

  The notebook gives neither node a size. \<open>inhib\<close> returns one number, and a
  \<open>WhiteSignal\<close> built without a size has one output; both nodes take no input.
  A \<open>PES\<close> rule takes an error of the size of the learned connection's output, a
  \<open>BCM\<close> rule takes no input.
\<close>

fun node_size_out :: "node_output \<Rightarrow> nat" where
  "node_size_out (Callable f) = 1"
| "node_size_out (Process (WhiteSignal period high)) = 1"

fun size_out :: "network \<Rightarrow> obj \<Rightarrow> nat" where
  "size_out net (Ens i) = dimensions (ensembles net ! i)"
| "size_out net (Neurons i) = n_neurons (ensembles net ! i)"
| "size_out net (NodeRef i) = node_size_out (output_n (nodes net ! i))"
| "size_out net (LearningRule c k) = 0"

fun size_in_plain :: "network \<Rightarrow> obj \<Rightarrow> nat" where
  "size_in_plain net (Ens i) = dimensions (ensembles net ! i)"
| "size_in_plain net (Neurons i) = n_neurons (ensembles net ! i)"
| "size_in_plain net (NodeRef i) = 0"
| "size_in_plain net (LearningRule c k) = 0"

fun size_in :: "network \<Rightarrow> obj \<Rightarrow> nat" where
  "size_in net (LearningRule c k) =
     (case map_of (learning_rule_type (connections net ! c)) k of
        Some (PES r) \<Rightarrow> size_in_plain net (post_obj (connections net ! c))
      | Some (BCM r) \<Rightarrow> 0
      | None \<Rightarrow> 0)"
| "size_in net x = size_in_plain net x"

definition mid_size :: "network \<Rightarrow> connection \<Rightarrow> nat" where
  "mid_size net c =
     (case conn_function c of
        None \<Rightarrow> size_out net (pre_obj c)
      | Some (Np_random_random k) \<Rightarrow> k)"

definition dims_match :: "network \<Rightarrow> connection \<Rightarrow> bool" where
  "dims_match net c =
     (case transform c of
        None \<Rightarrow> mid_size net c = size_in net (post_obj c)
      | Some (Scalar k) \<Rightarrow> mid_size net c = size_in net (post_obj c)
      | Some (Matrix m) \<Rightarrow>
          length m = size_in net (post_obj c) \<and> list_all (\<lambda>row. length row = mid_size net c) m)"

fun is_ens :: "obj \<Rightarrow> bool" where
  "is_ens (Ens i) = True"
| "is_ens x = False"

definition incoming :: "network \<Rightarrow> obj \<Rightarrow> connection list" where
  "incoming net tgt = filter (\<lambda>c. post_obj c = tgt) (connections net)"

definition outgoing :: "network \<Rightarrow> obj \<Rightarrow> connection list" where
  "outgoing net src = filter (\<lambda>c. pre_obj c = src) (connections net)"

definition apply_transform :: "transform option \<Rightarrow> real list \<Rightarrow> real list" where
  "apply_transform tr v =
     (case tr of
        None \<Rightarrow> v
      | Some (Scalar k) \<Rightarrow> map (\<lambda>x. k * x) v
      | Some (Matrix m) \<Rightarrow> map (\<lambda>row. sum_list (map2 (*) row v)) m)"

text \<open>
  The input an object receives when the objects' outputs are \<open>\<sigma>\<close>. It is a linear
  combination of outputs only when no incoming connection carries a function; otherwise
  the result is \<open>None\<close>.
\<close>

definition total_input :: "network \<Rightarrow> (obj \<Rightarrow> real list) \<Rightarrow> obj \<Rightarrow> real list option" where
  "total_input net \<sigma> tgt =
     (if list_all (\<lambda>c. conn_function c = None) (incoming net tgt)
      then Some (foldr (\<lambda>c acc. map2 (+) (apply_transform (transform c) (\<sigma> (pre_obj c))) acc)
                   (incoming net tgt) (replicate (size_in net tgt) 0))
      else None)"

section \<open>Evaluating the cell\<close>

lemmas build_defs = cell_def Network_def Ensemble_def Node_def Connection_def
  set_learning_rule_type_def learning_rule_def

lemma cell_no_error: "isl cell = False"
  by (simp add: build_defs Let_def)

lemma vars_value:
  "vars = \<lparr>pre = 0, post = 1, error = 2, actual_error = 3, conn = 4, error_conn = 5,
           input = 0, inhibit = 1\<rparr>"
  by (simp add: vars_def build_defs Let_def)

lemma model_label_seed: "label model = ''Learning''" "seed model = Some 7"
  by (simp_all add: model_def build_defs Let_def)

lemma model_ensembles:
  "ensembles model =
     [\<lparr>n_neurons = 50, dimensions = 1, neuron_type = None\<rparr>,
      \<lparr>n_neurons = 50, dimensions = 1, neuron_type = None\<rparr>,
      \<lparr>n_neurons = 100, dimensions = 1, neuron_type = None\<rparr>,
      \<lparr>n_neurons = 100, dimensions = 1, neuron_type = Some Direct\<rparr>]"
  by (simp add: model_def build_defs Let_def)

lemma model_nodes:
  "nodes model = [\<lparr>output_n = Process (WhiteSignal 30 10)\<rparr>, \<lparr>output_n = Callable inhib\<rparr>]"
  by (simp add: model_def build_defs Let_def)

lemma model_connections:
  "connections model =
     [\<lparr>pre_obj = Ens 0, post_obj = Ens 3, conn_function = None,
       transform = Some (Scalar (- 1)), synapse = None, solver = None,
       learning_rule_type = []\<rparr>,
      \<lparr>pre_obj = Ens 1, post_obj = Ens 3, conn_function = None,
       transform = Some (Scalar 1), synapse = None, solver = None,
       learning_rule_type = []\<rparr>,
      \<lparr>pre_obj = Ens 0, post_obj = Ens 2, conn_function = None,
       transform = Some (Scalar (- 1)), synapse = Some 0.02, solver = None,
       learning_rule_type = []\<rparr>,
      \<lparr>pre_obj = Ens 1, post_obj = Ens 2, conn_function = None,
       transform = Some (Scalar 1), synapse = Some 0.02, solver = None,
       learning_rule_type = []\<rparr>,
      \<lparr>pre_obj = Ens 0, post_obj = Ens 1, conn_function = Some (Np_random_random 1),
       transform = None, synapse = None, solver = Some (LstsqL2 True),
       learning_rule_type = [(''my_pes'', PES None), (''my_bcm'', BCM (Some (1 / 10 ^ 10)))]\<rparr>,
      \<lparr>pre_obj = Ens 2, post_obj = LearningRule 4 ''my_pes'', conn_function = None,
       transform = None, synapse = None, solver = None, learning_rule_type = []\<rparr>,
      \<lparr>pre_obj = NodeRef 0, post_obj = Ens 0, conn_function = None,
       transform = None, synapse = Some 0.02, solver = None, learning_rule_type = []\<rparr>,
      \<lparr>pre_obj = NodeRef 1, post_obj = Neurons 2, conn_function = None,
       transform = Some (Matrix (replicate 100 [- 1])), synapse = Some 0.01, solver = None,
       learning_rule_type = []\<rparr>]"
  by (simp add: model_def build_defs Let_def)

lemmas model_simps = vars_value model_label_seed model_ensembles model_nodes model_connections

lemmas sem_defs = incoming_def outgoing_def total_input_def apply_transform_def

section \<open>Properties of the network\<close>

subsection \<open>The error signal\<close>

text \<open>
  Claim C2: the error ensemble is to receive \<open>pre - post\<close>, as the cell's comments
  \<^verbatim>\<open># Error = pre - post\<close> and \<^verbatim>\<open># Actual Error = pre - post\<close> also say. The
  connections the cell creates deliver the opposite: \<open>pre\<close> enters through \<open>-1\<close> and
  \<open>post\<close> through \<open>+1\<close>, no function is applied to either, and these are the only
  connections into the error ensemble, so with \<open>pre\<close> at \<open>x\<close> and \<open>post\<close> at \<open>y\<close> it
  receives \<open>y - x\<close>. With \<open>pre\<close> at 1 and \<open>post\<close> at 0 that is \<open>-1\<close>, where
  \<open>pre - post\<close> is 1.
\<close>

theorem error_input_is_post_minus_pre:
  "total_input model (\<sigma>(Ens (pre vars) := [x], Ens (post vars) := [y])) (Ens (error vars))
     = Some [y - x]
   \<and> map (\<lambda>c. (pre_obj c, conn_function c, transform c)) (incoming model (Ens (error vars)))
       = [(Ens (pre vars), None, Some (Scalar (- 1))), (Ens (post vars), None, Some (Scalar 1))]
   \<and> total_input model ((\<lambda>_. [0])(Ens (pre vars) := [1], Ens (post vars) := [0]))
         (Ens (error vars))
       = Some [- 1]
   \<and> total_input model ((\<lambda>_. [0])(Ens (pre vars) := [1], Ens (post vars) := [0]))
         (Ens (error vars))
       \<noteq> Some [1 - 0]"
  by (simp add: model_simps sem_defs)

subsection \<open>Inhibition\<close>

text \<open>
  Claim C3: at every time \<open>t\<close> the inhibit node puts out 2 when \<open>t > 15\<close> and 0
  otherwise, so its output is nonzero exactly after 15, and 15 is the only threshold of
  which that is true. The node's one connection ends at the neurons of the error
  ensemble, with a transform of one row \<open>[-1]\<close> per neuron of that ensemble, of which
  there are 100; every neuron therefore receives \<open>-2\<close> after 15 and 0 before.
\<close>

theorem inhibit_after_15_seconds:
  "inhib t = (if 15 < t then 2 else 0)
   \<and> ((inhib t \<noteq> 0) = (15 < t))
   \<and> ((\<forall>s. (inhib s \<noteq> 0) = (c < s)) = (c = 15))
   \<and> output_n (nodes model ! inhibit vars) = Callable inhib
   \<and> map (\<lambda>c. (post_obj c, transform c)) (outgoing model (NodeRef (inhibit vars)))
       = [(Neurons (error vars),
           Some (Matrix (replicate (n_neurons (ensembles model ! error vars)) [- 1])))]
   \<and> n_neurons (ensembles model ! error vars) = 100
   \<and> total_input model (\<sigma>(NodeRef (inhibit vars) := [inhib t])) (Neurons (error vars))
       = Some (replicate 100 (if 15 < t then - 2 else 0))"
proof -
  have threshold: "(\<forall>s. (inhib s \<noteq> 0) = (c < s)) = (c = 15)"
  proof
    assume all: "\<forall>s. (inhib s \<noteq> 0) = (c < s)"
    show "c = 15"
    proof (rule ccontr)
      assume "c \<noteq> 15"
      then consider (below) "c < 15" | (above) "15 < c"
        by linarith
      then show False
      proof cases
        case below
        from all have "(inhib 15 \<noteq> 0) = (c < 15)"
          by blast
        with below show False
          by (simp add: inhib_def)
      next
        case above
        from all have "(inhib c \<noteq> 0) = (c < c)"
          by blast
        with above show False
          by (simp add: inhib_def)
      qed
    qed
  next
    assume "c = 15"
    then show "\<forall>s. (inhib s \<noteq> 0) = (c < s)"
      by (simp add: inhib_def)
  qed
  have rest:
    "inhib t = (if 15 < t then 2 else 0)
     \<and> ((inhib t \<noteq> 0) = (15 < t))
     \<and> output_n (nodes model ! inhibit vars) = Callable inhib
     \<and> map (\<lambda>c. (post_obj c, transform c)) (outgoing model (NodeRef (inhibit vars)))
         = [(Neurons (error vars),
             Some (Matrix (replicate (n_neurons (ensembles model ! error vars)) [- 1])))]
     \<and> n_neurons (ensembles model ! error vars) = 100
     \<and> total_input model (\<sigma>(NodeRef (inhibit vars) := [inhib t])) (Neurons (error vars))
         = Some (replicate 100 (if 15 < t then - 2 else 0))"
    by (simp add: model_simps sem_defs inhib_def)
  from threshold rest show ?thesis
    by blast
qed

text \<open>
  Claim C10: the inhibit node's only connection ends at the neurons of the error
  ensemble. The \<open>actual_error\<close> ensemble is fed by \<open>pre\<close> and \<open>post\<close> alone, \<open>pre\<close>
  by the input node alone and \<open>post\<close> by \<open>pre\<close> alone; nothing ends at the neurons of
  any of the three. What \<open>actual_error\<close> receives does not depend on the inhibit node's
  output.
\<close>

theorem inhibition_reaches_only_error_neurons:
  "map post_obj (outgoing model (NodeRef (inhibit vars))) = [Neurons (error vars)]
   \<and> map pre_obj (incoming model (Ens (actual_error vars))) = [Ens (pre vars), Ens (post vars)]
   \<and> map pre_obj (incoming model (Ens (pre vars))) = [NodeRef (input vars)]
   \<and> map pre_obj (incoming model (Ens (post vars))) = [Ens (pre vars)]
   \<and> incoming model (Neurons (actual_error vars)) = []
   \<and> incoming model (Neurons (pre vars)) = []
   \<and> incoming model (Neurons (post vars)) = []
   \<and> input vars \<noteq> inhibit vars
   \<and> total_input model (\<sigma>(NodeRef (inhibit vars) := v)) (Ens (actual_error vars))
       = total_input model \<sigma> (Ens (actual_error vars))"
  by (simp add: model_simps sem_defs)

subsection \<open>Learning rules\<close>

text \<open>
  Claim C4: the connection \<open>conn\<close> from \<open>pre\<close> to \<open>post\<close> has exactly two learning
  rules, a \<open>PES\<close> rule under the key \<open>my_pes\<close> and a \<open>BCM\<close> rule under \<open>my_bcm\<close>
  whose learning rate is \<open>1e-10\<close>. The error ensemble's only outgoing connection is
  \<open>error_conn\<close>, which ends at the \<open>PES\<close> rule; the lookup of that rule succeeds, the
  error ensemble is the rule's only input, and nothing ends at the \<open>BCM\<close> rule.
\<close>

theorem error_drives_pes_only:
  "map_of (learning_rule_type (connections model ! conn vars)) ''my_pes'' = Some (PES None)
   \<and> map_of (learning_rule_type (connections model ! conn vars)) ''my_bcm''
       = Some (BCM (Some (1 / 10 ^ 10)))
   \<and> map fst (learning_rule_type (connections model ! conn vars)) = [''my_pes'', ''my_bcm'']
   \<and> pre_obj (connections model ! conn vars) = Ens (pre vars)
   \<and> post_obj (connections model ! conn vars) = Ens (post vars)
   \<and> learning_rule (conn vars) ''my_pes'' model = Inr (LearningRule (conn vars) ''my_pes'')
   \<and> outgoing model (Ens (error vars)) = [connections model ! error_conn vars]
   \<and> post_obj (connections model ! error_conn vars) = LearningRule (conn vars) ''my_pes''
   \<and> map pre_obj (incoming model (LearningRule (conn vars) ''my_pes'')) = [Ens (error vars)]
   \<and> incoming model (LearningRule (conn vars) ''my_bcm'') = []"
  by (simp add: model_simps sem_defs learning_rule_def)

text \<open>
  The structure of the learned channel: \<open>pre\<close> and \<open>post\<close> are two distinct ensembles
  of 50 neurons and one dimension each. Exactly one connection runs from \<open>pre\<close> to
  \<open>post\<close>, none runs back, and it is the only connection of the network that has
  learning rules: a \<open>PES\<close> rule with no learning rate given and a \<open>BCM\<close> rule with
  rate \<open>1e-10\<close>. The \<open>PES\<close> rule receives the output of the error ensemble and
  nothing else, through a connection without function or transform. The error ensemble
  receives \<open>post - pre\<close>, with no function applied to \<open>pre\<close>, which is zero exactly
  when \<open>post\<close> carries the value of \<open>pre\<close>. How the weights of the connection change
  under these rules is the simulator's part and is not described here.
\<close>

lemma pre_post_channel_structure:
  "ensembles model ! pre vars = \<lparr>n_neurons = 50, dimensions = 1, neuron_type = None\<rparr>
   \<and> ensembles model ! post vars = \<lparr>n_neurons = 50, dimensions = 1, neuron_type = None\<rparr>
   \<and> pre vars \<noteq> post vars
   \<and> filter (\<lambda>c. pre_obj c = Ens (pre vars) \<and> post_obj c = Ens (post vars)) (connections model)
       = [connections model ! conn vars]
   \<and> filter (\<lambda>c. pre_obj c = Ens (post vars) \<and> post_obj c = Ens (pre vars)) (connections model)
       = []
   \<and> filter (\<lambda>c. learning_rule_type c \<noteq> []) (connections model) = [connections model ! conn vars]
   \<and> learning_rule_type (connections model ! conn vars)
       = [(''my_pes'', PES None), (''my_bcm'', BCM (Some (1 / 10 ^ 10)))]
   \<and> map (\<lambda>c. (pre_obj c, conn_function c, transform c))
         (incoming model (LearningRule (conn vars) ''my_pes''))
       = [(Ens (error vars), None, None)]
   \<and> total_input model (\<sigma>(Ens (error vars) := [e])) (LearningRule (conn vars) ''my_pes'')
       = Some [e]
   \<and> map (\<lambda>c. (pre_obj c, conn_function c, transform c)) (incoming model (Ens (error vars)))
       = [(Ens (pre vars), None, Some (Scalar (- 1))), (Ens (post vars), None, Some (Scalar 1))]
   \<and> total_input model (\<sigma>(Ens (pre vars) := [x], Ens (post vars) := [y])) (Ens (error vars))
       = Some [y - x]"
  by (simp add: model_simps sem_defs)

subsection \<open>The two error ensembles\<close>

text \<open>
  Claim C5, as stated: \<open>actual_error\<close> and \<open>error\<close> differ only in neuron type and
  in synaptic filtering. They differ in more: the neurons of \<open>error\<close> are the target of
  the inhibit node's connection, the neurons of \<open>actual_error\<close> are the target of
  nothing. At time 20 the inhibit node puts out 2, and the neurons of \<open>error\<close> receive
  \<open>-2\<close> each where those of \<open>actual_error\<close> receive 0.
\<close>

theorem error_ensembles_differ_in_inhibition:
  "map pre_obj (incoming model (Neurons (error vars))) = [NodeRef (inhibit vars)]
   \<and> incoming model (Neurons (actual_error vars)) = []
   \<and> total_input model ((\<lambda>_. [0])(NodeRef (inhibit vars) := [inhib 20])) (Neurons (error vars))
       = Some (replicate 100 (- 2))
   \<and> total_input model ((\<lambda>_. [0])(NodeRef (inhibit vars) := [inhib 20]))
         (Neurons (actual_error vars))
       = Some (replicate 100 0)
   \<and> total_input model ((\<lambda>_. [0])(NodeRef (inhibit vars) := [inhib 20])) (Neurons (error vars))
       \<noteq> total_input model ((\<lambda>_. [0])(NodeRef (inhibit vars) := [inhib 20]))
           (Neurons (actual_error vars))"
  by (simp add: model_simps sem_defs inhib_def)

text \<open>
  Claim C5, amended: \<open>actual_error\<close> and \<open>error\<close> receive the same decoded input
  whatever the other objects put out. Each is fed, at the level of the ensemble, by
  \<open>pre\<close> through \<open>-1\<close> and by \<open>post\<close> through \<open>+1\<close> and by nothing else; the
  connections into the one and into the other agree in source, function, transform,
  solver and learning rules, and differ in their synapse (none given, against 0.02). The
  two ensembles agree in neuron count and dimension and differ in neuron type (\<open>Direct\<close>,
  against none given). They differ further in what else is attached to them: the inhibit
  node's connection ends at the neurons of \<open>error\<close> alone, which receive \<open>-2\<close> each
  after 15 and 0 before while the neurons of \<open>actual_error\<close> receive 0 throughout, and
  \<open>error\<close> alone has an outgoing connection, to the \<open>PES\<close> rule.
\<close>

theorem actual_error_same_decoded_input:
  "total_input model \<sigma> (Ens (actual_error vars)) = total_input model \<sigma> (Ens (error vars))
   \<and> map (\<lambda>c. (pre_obj c, conn_function c, transform c, solver c, learning_rule_type c))
         (incoming model (Ens (actual_error vars)))
       = map (\<lambda>c. (pre_obj c, conn_function c, transform c, solver c, learning_rule_type c))
           (incoming model (Ens (error vars)))
   \<and> map (\<lambda>c. (pre_obj c, transform c)) (incoming model (Ens (actual_error vars)))
       = [(Ens (pre vars), Some (Scalar (- 1))), (Ens (post vars), Some (Scalar 1))]
   \<and> n_neurons (ensembles model ! actual_error vars) = n_neurons (ensembles model ! error vars)
   \<and> dimensions (ensembles model ! actual_error vars) = dimensions (ensembles model ! error vars)
   \<and> neuron_type (ensembles model ! actual_error vars) = Some Direct
   \<and> neuron_type (ensembles model ! error vars) = None
   \<and> map synapse (incoming model (Ens (actual_error vars))) = [None, None]
   \<and> map synapse (incoming model (Ens (error vars))) = [Some 0.02, Some 0.02]
   \<and> map pre_obj (incoming model (Neurons (error vars))) = [NodeRef (inhibit vars)]
   \<and> incoming model (Neurons (actual_error vars)) = []
   \<and> total_input model (\<sigma>(NodeRef (inhibit vars) := [inhib t])) (Neurons (error vars))
       = Some (replicate 100 (if 15 < t then - 2 else 0))
   \<and> total_input model \<sigma> (Neurons (actual_error vars)) = Some (replicate 100 0)
   \<and> map post_obj (outgoing model (Ens (error vars))) = [LearningRule (conn vars) ''my_pes'']
   \<and> outgoing model (Ens (actual_error vars)) = []
   \<and> outgoing model (Neurons (error vars)) = []
   \<and> outgoing model (Neurons (actual_error vars)) = []"
  by (simp add: model_simps sem_defs inhib_def)

subsection \<open>Stimulus\<close>

text \<open>
  Claim C7: the network is built with seed 7. The input node is a \<open>WhiteSignal\<close> of
  period 30 and upper frequency 10. Its one connection ends at \<open>pre\<close>, has synapse 0.02
  and neither function nor transform; it is the only connection into \<open>pre\<close>, which so
  receives the stimulus unchanged.
\<close>

theorem stimulus_configuration:
  "seed model = Some 7
   \<and> output_n (nodes model ! input vars) = Process (WhiteSignal 30 10)
   \<and> map (\<lambda>c. (post_obj c, synapse c, conn_function c, transform c))
         (outgoing model (NodeRef (input vars)))
       = [(Ens (pre vars), Some 0.02, None, None)]
   \<and> map pre_obj (incoming model (Ens (pre vars))) = [NodeRef (input vars)]
   \<and> total_input model (\<sigma>(NodeRef (input vars) := [u])) (Ens (pre vars)) = Some [u]"
  by (simp add: model_simps sem_defs)

subsection \<open>Dimensions\<close>

text \<open>
  Claim C8: every connection of the network fits the sizes of its two ends. The six
  connections that end at an ensemble start from an ensemble or from the input node and
  have size 1 at both ends. Of the two others, the one from the error ensemble ends at the
  \<open>PES\<close> rule, and the one from the inhibit node (size 1) ends at the 100 neurons of the
  error ensemble with a transform of 100 rows \<open>[-1]\<close>, one per neuron.
\<close>

theorem connections_dimensions_match:
  "list_all (dims_match model) (connections model)
   \<and> map (\<lambda>c. (size_out model (pre_obj c), size_in model (post_obj c)))
         (filter (\<lambda>c. is_ens (post_obj c)) (connections model))
       = [(1, 1), (1, 1), (1, 1), (1, 1), (1, 1), (1, 1)]
   \<and> map pre_obj (filter (\<lambda>c. is_ens (post_obj c)) (connections model))
       = [Ens (pre vars), Ens (post vars), Ens (pre vars), Ens (post vars), Ens (pre vars),
          NodeRef (input vars)]
   \<and> map (\<lambda>c. (pre_obj c, post_obj c, transform c))
         (filter (\<lambda>c. \<not> is_ens (post_obj c)) (connections model))
       = [(Ens (error vars), LearningRule (conn vars) ''my_pes'', None),
          (NodeRef (inhibit vars), Neurons (error vars), Some (Matrix (replicate 100 [- 1])))]
   \<and> n_neurons (ensembles model ! error vars) = 100
   \<and> size_out model (NodeRef (inhibit vars)) = 1
   \<and> size_in model (Neurons (error vars)) = 100"
  by (simp add: model_simps sem_defs dims_match_def mid_size_def list_all_iff)

end
